theory Spec2Isabelle
  imports Main
begin

section \<open>The supply chaincode and its benchmark driver\<close>

text \<open>
  A shallow embedding of \<^verbatim>\<open>supply.go\<close> (the chaincode) and of the JavaScript
  benchmark module that follows it in the same source file.

  Go strings and byte slices are byte sequences, so both are \<^typ>\<open>string\<close> here
  (a \<^typ>\<open>char\<close> is one byte). A \<^verbatim>\<open>[]byte\<close> that may be \<^verbatim>\<open>nil\<close> is a
  \<^typ>\<open>string option\<close>, with \<^term>\<open>None\<close> for \<^verbatim>\<open>nil\<close>. A Go result pair
  \<^verbatim>\<open>(value, err)\<close> is a sum: \<^term>\<open>Inl\<close> carries \<^verbatim>\<open>err.Error()\<close>, \<^term>\<open>Inr\<close>
  the value. Calls to \<^verbatim>\<open>fmt.Println\<close> only log and are left out.
\<close>

subsection \<open>Data model\<close>

text \<open>The struct \<^verbatim>\<open>product\<close>, fields in declaration order.\<close>

record product =
  ObjectType :: string
  Puid :: string
  Pname :: string
  Ptype :: string
  Owner :: string

text \<open>\<^verbatim>\<open>pb.Response\<close> as built by \<^verbatim>\<open>shim.Success(payload)\<close> and \<^verbatim>\<open>shim.Error(msg)\<close>.\<close>

datatype Response = Success "string option" | Error string

text \<open>One element of a state query iterator and of a history iterator.\<close>

datatype KV = KV (Key: string) (Record: string)

datatype KeyModification =
  KeyModification (TxId: string) (HValue: string) (Seconds: int) (Nanos: int) (IsDelete: bool)

subsection \<open>The host runtime and the Go library, as parameters\<close>

text \<open>
  \<^verbatim>\<open>shim.ChaincodeStubInterface\<close> belongs to the host runtime. Its methods are the
  fields of a record of functions over a host state \<open>'s\<close>; every method returns
  the host state it leaves behind, so that a handler that returns the state it
  was given has called no method of a host that records its calls.
  An iterator is the list of the results its successive \<^verbatim>\<open>Next()\<close> calls give;
  \<^verbatim>\<open>HasNext()\<close> holds while the list is not exhausted.
\<close>

record 's ChaincodeStub =
  GetState :: "string \<Rightarrow> 's \<Rightarrow> (string + string option) \<times> 's"
  PutState :: "string \<Rightarrow> string option \<Rightarrow> 's \<Rightarrow> string option \<times> 's"
  CreateCompositeKey :: "string \<Rightarrow> string list \<Rightarrow> 's \<Rightarrow> (string + string) \<times> 's"
  GetQueryResult :: "string \<Rightarrow> 's \<Rightarrow> (string + (string + KV) list) \<times> 's"
  GetHistoryForKey :: "string \<Rightarrow> 's \<Rightarrow> (string + (string + KeyModification) list) \<times> 's"

text \<open>
  The functions of the Go standard library the chaincode calls:
  \<^verbatim>\<open>strings.ToLower\<close>, \<^verbatim>\<open>json.Marshal\<close> and \<^verbatim>\<open>json.Unmarshal\<close> at type
  \<^verbatim>\<open>product\<close>, and \<^verbatim>\<open>time.Unix(sec, nsec).String()\<close>.
\<close>

record GoLib =
  ToLower :: "string \<Rightarrow> string"
  Marshal :: "product \<Rightarrow> string + string"
  Unmarshal :: "string \<Rightarrow> string + product"
  UnixString :: "int \<Rightarrow> int \<Rightarrow> string"

subsection \<open>The chaincode handlers\<close>

definition initProduct ::
  "'s ChaincodeStub \<Rightarrow> GoLib \<Rightarrow> string list \<Rightarrow> 's \<Rightarrow> Response \<times> 's" where
  "initProduct stub lib args s =
    (if length args \<noteq> 4 then (Error ''Incorrect number of arguments. Expecting 4'', s)
     else if length (args ! 0) \<le> 0 then (Error ''1st argument must be a non-empty string'', s)
     else if length (args ! 1) \<le> 0 then (Error ''2nd argument must be a non-empty string'', s)
     else if length (args ! 2) \<le> 0 then (Error ''3rd argument must be a non-empty string'', s)
     else if length (args ! 3) \<le> 0 then (Error ''4th argument must be a non-empty string'', s)
     else
       let productUID = args ! 0;
           pname = ToLower lib (args ! 1);
           ptype = ToLower lib (args ! 2);
           owner = ToLower lib (args ! 3)
       in case GetState stub productUID s of
            (Inl err, s1) \<Rightarrow> (Error (''Failed to get product: '' @ err), s1)
          | (Inr (Some productAsBytes), s1) \<Rightarrow>
              (Error (''This product already exists: '' @ productUID), s1)
          | (Inr None, s1) \<Rightarrow>
              let objectType = ''product'';
                  product = \<lparr>ObjectType = objectType, Puid = productUID, Pname = pname,
                             Ptype = ptype, Owner = owner\<rparr>
              in case Marshal lib product of
                   Inl err \<Rightarrow> (Error err, s1)
                 | Inr productJSONasBytes \<Rightarrow>
                     (case PutState stub productUID (Some productJSONasBytes) s1 of
                        (Some err, s2) \<Rightarrow> (Error err, s2)
                      | (None, s2) \<Rightarrow>
                          let indexName = ''type~name'' in
                          (case CreateCompositeKey stub indexName
                                  [Ptype product, Pname product] s2 of
                             (Inl err, s3) \<Rightarrow> (Error err, s3)
                           | (Inr colorNameIndexKey, s3) \<Rightarrow>
                               let value = [CHR 0x00];
                                   (_, s4) = PutState stub colorNameIndexKey (Some value) s3
                               in (Success None, s4))))"

definition readProduct ::
  "'s ChaincodeStub \<Rightarrow> GoLib \<Rightarrow> string list \<Rightarrow> 's \<Rightarrow> Response \<times> 's" where
  "readProduct stub lib args s =
    (if length args \<noteq> 1
     then (Error ''Incorrect number of arguments. Expecting product ID of the product to query'', s)
     else
       let Puid = args ! 0 in
       case GetState stub Puid s of
         (Inl err, s1) \<Rightarrow> (Error (''{\"Error\":\"Failed to get state for '' @ Puid @ ''\"}''), s1)
       | (Inr None, s1) \<Rightarrow> (Error (''{\"Error\":\"Marble does not exist: '' @ Puid @ ''\"}''), s1)
       | (Inr (Some valAsbytes), s1) \<Rightarrow> (Success (Some valAsbytes), s1))"

definition transferProduct ::
  "'s ChaincodeStub \<Rightarrow> GoLib \<Rightarrow> string list \<Rightarrow> 's \<Rightarrow> Response \<times> 's" where
  "transferProduct stub lib args s =
    (if length args < 2 then (Error ''Incorrect number of arguments. Expecting 2'', s)
     else
       let puid = args ! 0;
           newOwner = ToLower lib (args ! 1)
       in case GetState stub puid s of
            (Inl err, s1) \<Rightarrow> (Error (''Failed to get product:'' @ err), s1)
          | (Inr None, s1) \<Rightarrow> (Error ''Product does not exist'', s1)
          | (Inr (Some productAsBytes), s1) \<Rightarrow>
              (case Unmarshal lib productAsBytes of
                 Inl err \<Rightarrow> (Error err, s1)
               | Inr unmarshalled \<Rightarrow>
                   let productToTransfer = unmarshalled\<lparr>Owner := newOwner\<rparr>;
                       productJSONasBytes =
                         (case Marshal lib productToTransfer of
                            Inl _ \<Rightarrow> None | Inr b \<Rightarrow> Some b)
                   in case PutState stub puid productJSONasBytes s1 of
                        (Some err, s2) \<Rightarrow> (Error err, s2)
                      | (None, s2) \<Rightarrow> (Success None, s2)))"

text \<open>
  The loop of \<^verbatim>\<open>getQueryResultForQueryString\<close> over the iterator, with the buffer
  and the flag \<^verbatim>\<open>bArrayMemberAlreadyWritten\<close> as accumulators.
\<close>

fun queryLoop :: "(string + KV) list \<Rightarrow> bool \<Rightarrow> string \<Rightarrow> string + string" where
  "queryLoop [] bArrayMemberAlreadyWritten buffer = Inr buffer"
| "queryLoop (Inl err # resultsIterator) bArrayMemberAlreadyWritten buffer = Inl err"
| "queryLoop (Inr queryResponse # resultsIterator) bArrayMemberAlreadyWritten buffer =
     queryLoop resultsIterator True
       (buffer @ (if bArrayMemberAlreadyWritten = True then '','' else [])
          @ ''{\"Key\":'' @ ''\"'' @ Key queryResponse @ ''\"''
          @ '', \"Record\":'' @ Record queryResponse @ ''}'')"

definition getQueryResultForQueryString ::
  "'s ChaincodeStub \<Rightarrow> string \<Rightarrow> 's \<Rightarrow> (string + string) \<times> 's" where
  "getQueryResultForQueryString stub queryString s =
    (case GetQueryResult stub queryString s of
       (Inl err, s1) \<Rightarrow> (Inl err, s1)
     | (Inr resultsIterator, s1) \<Rightarrow>
         (case queryLoop resultsIterator False ''['' of
            Inl err \<Rightarrow> (Inl err, s1)
          | Inr buffer \<Rightarrow> (Inr (buffer @ '']''), s1)))"

definition queryProduct ::
  "'s ChaincodeStub \<Rightarrow> GoLib \<Rightarrow> string list \<Rightarrow> 's \<Rightarrow> Response \<times> 's" where
  "queryProduct stub lib args s =
    (if length args < 1 then (Error ''Incorrect number of arguments. Expecting 1'', s)
     else
       let queryString = args ! 0 in
       case getQueryResultForQueryString stub queryString s of
         (Inl err, s1) \<Rightarrow> (Error err, s1)
       | (Inr queryResults, s1) \<Rightarrow> (Success (Some queryResults), s1))"

definition FormatBool :: "bool \<Rightarrow> string" where
  "FormatBool b = (if b then ''true'' else ''false'')"

fun historyLoop ::
  "GoLib \<Rightarrow> (string + KeyModification) list \<Rightarrow> bool \<Rightarrow> string \<Rightarrow> string + string" where
  "historyLoop lib [] bArrayMemberAlreadyWritten buffer = Inr buffer"
| "historyLoop lib (Inl err # resultsIterator) bArrayMemberAlreadyWritten buffer = Inl err"
| "historyLoop lib (Inr response # resultsIterator) bArrayMemberAlreadyWritten buffer =
     historyLoop lib resultsIterator True
       (buffer @ (if bArrayMemberAlreadyWritten = True then '','' else [])
          @ ''{\"TxId\":'' @ ''\"'' @ TxId response @ ''\"''
          @ '', \"Value\":'' @ (if IsDelete response then ''null'' else HValue response)
          @ '', \"Timestamp\":'' @ ''\"''
          @ UnixString lib (Seconds response) (Nanos response) @ ''\"''
          @ '', \"IsDelete\":'' @ ''\"'' @ FormatBool (IsDelete response) @ ''\"''
          @ ''}'')"

definition getHistoryForProduct ::
  "'s ChaincodeStub \<Rightarrow> GoLib \<Rightarrow> string list \<Rightarrow> 's \<Rightarrow> Response \<times> 's" where
  "getHistoryForProduct stub lib args s =
    (if length args < 1 then (Error ''Incorrect number of arguments. Expecting 1'', s)
     else
       let Puid = args ! 0 in
       case GetHistoryForKey stub Puid s of
         (Inl err, s1) \<Rightarrow> (Error err, s1)
       | (Inr resultsIterator, s1) \<Rightarrow>
           (case historyLoop lib resultsIterator False ''['' of
              Inl err \<Rightarrow> (Error err, s1)
            | Inr buffer \<Rightarrow> (Success (Some (buffer @ '']'')), s1)))"

text \<open>
  \<^verbatim>\<open>Invoke\<close>; the pair \<^verbatim>\<open>stub.GetFunctionAndParameters()\<close> returns is the
  argument \<open>(function, args)\<close>.
\<close>

definition Invoke ::
  "'s ChaincodeStub \<Rightarrow> GoLib \<Rightarrow> string \<times> string list \<Rightarrow> 's \<Rightarrow> Response \<times> 's" where
  "Invoke stub lib call s =
    (let function = fst call; args = snd call in
     if function = ''initProduct'' then initProduct stub lib args s
     else if function = ''transferProduct'' then transferProduct stub lib args s
     else if function = ''readProduct'' then readProduct stub lib args s
     else if function = ''queryProduct'' then queryProduct stub lib args s
     else if function = ''getHistoryForProduct'' then getHistoryForProduct stub lib args s
     else (Error ''Received unknown function invocation'', s))"

subsection \<open>What a key-value host guarantees\<close>

text \<open>
  The world state of a host is read off its state by \<open>view\<close>. A key-value host
  answers \<^verbatim>\<open>GetState\<close> with the value stored under the key (\<^verbatim>\<open>nil\<close> when there is
  none) and changes nothing by reading; an accepted \<^verbatim>\<open>PutState\<close> of a value stores
  it under its key and touches no other key; a refused \<^verbatim>\<open>PutState\<close> and
  \<^verbatim>\<open>CreateCompositeKey\<close> leave the world state as it is.
\<close>

definition kvHost :: "'s ChaincodeStub \<Rightarrow> ('s \<Rightarrow> string \<rightharpoonup> string) \<Rightarrow> bool" where
  "kvHost stub view \<longleftrightarrow>
     (\<forall>key s. fst (GetState stub key s) = Inr (view s key)) \<and>
     (\<forall>key s. view (snd (GetState stub key s)) = view s) \<and>
     (\<forall>key v s. fst (PutState stub key (Some v) s) = None \<longrightarrow>
        view (snd (PutState stub key (Some v) s)) = (view s)(key \<mapsto> v)) \<and>
     (\<forall>key v s. fst (PutState stub key v s) \<noteq> None \<longrightarrow>
        view (snd (PutState stub key v s)) = view s) \<and>
     (\<forall>objectType attributes s.
        view (snd (CreateCompositeKey stub objectType attributes s)) = view s)"

subsection \<open>An in-memory host and a small JSON codec, for concrete runs\<close>

text \<open>
  The in-memory host keeps the world state as a map and counts the calls made to
  it. It builds composite keys the way the host runtime's shim does: the byte
  \<^verbatim>\<open>0x00\<close>, the object type, and each attribute, every part followed by
  \<^verbatim>\<open>0x00\<close>; a part that contains \<^verbatim>\<open>0x00\<close> is refused. \<^verbatim>\<open>PutState\<close> refuses the
  empty key, as the shim does, and every key in \<open>refused\<close>, which stands for a
  write the host fails. It keeps no history and supports no rich query.
\<close>

record ledger =
  world :: "string \<rightharpoonup> string"
  calls :: nat

definition called :: "ledger \<Rightarrow> ledger" where
  "called s = s\<lparr>calls := Suc (calls s)\<rparr>"

definition createCompositeKey :: "string \<Rightarrow> string list \<Rightarrow> string + string" where
  "createCompositeKey objectType attributes =
     (if \<exists>part \<in> set (objectType # attributes). CHR 0x00 \<in> set part
      then Inl ''input contains unicode U+0000''
      else Inr ([CHR 0x00] @ objectType @ [CHR 0x00]
                  @ concat (map (\<lambda>att. att @ [CHR 0x00]) attributes)))"

definition memStub :: "(string \<Rightarrow> bool) \<Rightarrow> ledger ChaincodeStub" where
  "memStub refused =
     \<lparr>GetState = (\<lambda>key s. (Inr (world s key), called s)),
      PutState = (\<lambda>key v s.
         if key = [] then (Some ''key must not be an empty string'', called s)
         else if refused key then (Some ''PutState failed'', called s)
         else (None, called (s\<lparr>world := (world s)(key := v)\<rparr>))),
      CreateCompositeKey = (\<lambda>objectType attributes s.
         (createCompositeKey objectType attributes, called s)),
      GetQueryResult = (\<lambda>query s. (Inl ''ExecuteQuery not supported'', called s)),
      GetHistoryForKey = (\<lambda>key s. (Inr [], called s))\<rparr>"

text \<open>
  The codec writes a product as \<^verbatim>\<open>encoding/json\<close> does when its fields hold
  letters, digits and spaces (it escapes only the quote and the backslash), and
  reads back exactly what it writes. Lower-casing is that of the ASCII letters.
\<close>

definition asciiLower :: "char \<Rightarrow> char" where
  "asciiLower c =
     (case map_of (zip ''ABCDEFGHIJKLMNOPQRSTUVWXYZ'' ''abcdefghijklmnopqrstuvwxyz'') c of
        None \<Rightarrow> c
      | Some l \<Rightarrow> l)"

definition quoted :: "string \<Rightarrow> string" where
  "quoted str =
     ''\"'' @ concat (map (\<lambda>c. if c = CHR 0x22 \<or> c = CHR 0x5C then [CHR 0x5C, c] else [c]) str)
       @ ''\"''"

definition jsonMarshal :: "product \<Rightarrow> string + string" where
  "jsonMarshal p =
     Inr (''{\"docType\":'' @ quoted (ObjectType p) @ '',\"puid\":'' @ quoted (Puid p)
          @ '',\"pname\":'' @ quoted (Pname p) @ '',\"ptype\":'' @ quoted (Ptype p)
          @ '',\"owner\":'' @ quoted (Owner p) @ ''}'')"

fun expect :: "string \<Rightarrow> string \<Rightarrow> string option" where
  "expect [] input = Some input"
| "expect (c # cs) [] = None"
| "expect (c # cs) (d # ds) = (if c = d then expect cs ds else None)"

fun readQuoted :: "string \<Rightarrow> string \<Rightarrow> (string \<times> string) option" where
  "readQuoted acc [] = None"
| "readQuoted acc [c] = (if c = CHR 0x22 then Some (acc, []) else None)"
| "readQuoted acc (c # d # ds) =
     (if c = CHR 0x22 then Some (acc, d # ds)
      else if c = CHR 0x5C then readQuoted (acc @ [d]) ds
      else readQuoted (acc @ [c]) (d # ds))"

definition field :: "string \<Rightarrow> string \<Rightarrow> (string \<times> string) option" where
  "field name input =
     (case expect (''\"'' @ name @ ''\":\"'') input of
        None \<Rightarrow> None
      | Some rest \<Rightarrow> readQuoted [] rest)"

definition jsonUnmarshal :: "string \<Rightarrow> string + product" where
  "jsonUnmarshal input =
     (case Option.bind (expect ''{'' input) (field ''docType'') of
        None \<Rightarrow> Inl ''invalid character''
      | Some (v0, r0) \<Rightarrow>
     (case Option.bind (expect '','' r0) (field ''puid'') of
        None \<Rightarrow> Inl ''invalid character''
      | Some (v1, r1) \<Rightarrow>
     (case Option.bind (expect '','' r1) (field ''pname'') of
        None \<Rightarrow> Inl ''invalid character''
      | Some (v2, r2) \<Rightarrow>
     (case Option.bind (expect '','' r2) (field ''ptype'') of
        None \<Rightarrow> Inl ''invalid character''
      | Some (v3, r3) \<Rightarrow>
     (case Option.bind (expect '','' r3) (field ''owner'') of
        None \<Rightarrow> Inl ''invalid character''
      | Some (v4, r4) \<Rightarrow>
          if r4 = ''}''
          then Inr \<lparr>ObjectType = v0, Puid = v1, Pname = v2, Ptype = v3, Owner = v4\<rparr>
          else Inl ''invalid character'')))))"

definition goLib :: GoLib where
  "goLib = \<lparr>ToLower = map asciiLower, Marshal = jsonMarshal, Unmarshal = jsonUnmarshal,
            UnixString = (\<lambda>sec nsec. [])\<rparr>"

definition emptyLedger :: ledger where
  "emptyLedger = \<lparr>world = Map.empty, calls = 0\<rparr>"

section \<open>The benchmark driver\<close>

text \<open>
  The module keeps \<^verbatim>\<open>txIndex\<close>, \<^verbatim>\<open>bc\<close> and \<^verbatim>\<open>contx\<close>; the last two are undefined
  until \<^verbatim>\<open>init\<close> has run. Of the adapter \<^verbatim>\<open>bc\<close> only the field \<^verbatim>\<open>bcType\<close> is
  read. \<^verbatim>\<open>txIndex\<close> is a JavaScript number, a double: it holds every integer up to
  \<^verbatim>\<open>2^53\<close> exactly, and \<^verbatim>\<open>2^53 + 1\<close> rounds back to \<^verbatim>\<open>2^53\<close>, so the increment
  stops there.
\<close>

record 'c module =
  txIndex :: nat
  bc :: "string option"
  contx :: "'c option"

definition ID :: "string list" where
  "ID = [''1q2'', ''1w2'', ''a12'', ''dd4'']"

definition owners :: "string list" where
  "owners = [''Alice'', ''Bob'', ''Claire'', ''David'']"

definition loaded :: "'c module" where
  "loaded = \<lparr>txIndex = 0, bc = None, contx = None\<rparr>"

definition init :: "string \<Rightarrow> 'c \<Rightarrow> 'a \<Rightarrow> 'c module \<Rightarrow> 'c module" where
  "init blockchain context args m = m\<lparr>bc := Some blockchain, contx := Some context\<rparr>"

definition increment :: "nat \<Rightarrow> nat" where
  "increment n = (if n < 2 ^ 53 then n + 1 else n)"

definition digit :: "nat \<Rightarrow> char" where
  "digit d = ''0123456789'' ! d"

function toString :: "nat \<Rightarrow> string" where
  "toString n = (if n < 10 then [digit n] else toString (n div 10) @ [digit (n mod 10)])"
  by pat_completeness auto
termination
  by (relation "measure (\<lambda>n. n)") auto

declare toString.simps [simp del]

text \<open>
  The argument object handed to \<^verbatim>\<open>invokeSmartContract\<close>, in its two shapes; the
  second has the fields \<^verbatim>\<open>verb\<close>, \<^verbatim>\<open>name\<close>, \<^verbatim>\<open>id\<close>, \<^verbatim>\<open>type\<close> and \<^verbatim>\<open>owner\<close>.
\<close>

datatype invokeArgs =
  Chaincode (chaincodeFunction: string) (chaincodeArguments: "string list")
| Verb (argVerb: string) (argName: string) (argId: string) (argType: string) (argOwner: string)

text \<open>
  The call \<^verbatim>\<open>bc.invokeSmartContract(contx, 'supply', 'v1', args, 30)\<close> that \<^verbatim>\<open>run\<close>
  returns the promise of. Reading \<^verbatim>\<open>bc.bcType\<close> while \<^verbatim>\<open>bc\<close> is undefined throws a
  \<^verbatim>\<open>TypeError\<close>, after \<^verbatim>\<open>txIndex\<close> has been incremented.
\<close>

datatype 'c invocation = InvokeSmartContract "'c option" string string invokeArgs nat

datatype jsError = TypeError

definition run :: "nat \<Rightarrow> 'c module \<Rightarrow> (jsError + 'c invocation) \<times> 'c module" where
  "run pid m =
     (let m1 = m\<lparr>txIndex := increment (txIndex m)\<rparr>;
          productName = ''product_'' @ toString (txIndex m1) @ ''_'' @ toString pid;
          productID = ID ! (txIndex m1 mod length ID);
          productType = toString (((txIndex m1 mod 10) + 1) * 10);
          productOwner = owners ! (txIndex m1 mod length owners)
      in case bc m1 of
           None \<Rightarrow> (Inl TypeError, m1)
         | Some bcType \<Rightarrow>
             let args =
               (if bcType = ''fabric-ccp''
                then Chaincode ''initProduct'' [productID, productName, productType, productOwner]
                else Verb ''initProduct'' productName productID productType productOwner)
             in (Inr (InvokeSmartContract (contx m1) ''supply'' ''v1'' args 30), m1))"

text \<open>The module after \<open>n\<close> calls of \<^verbatim>\<open>run\<close>.\<close>

fun runs :: "nat \<Rightarrow> nat \<Rightarrow> 'c module \<Rightarrow> 'c module" where
  "runs 0 pid m = m"
| "runs (Suc n) pid m = runs n pid (snd (run pid m))"

text \<open>A ledger that holds one product, stored under \<^verbatim>\<open>1q2\<close>.\<close>

definition oneProduct :: ledger where
  "oneProduct =
     \<lparr>world = [''1q2'' \<mapsto>
        ''{\"docType\":\"product\",\"puid\":\"1q2\",\"pname\":\"n\",\"ptype\":\"t\",\"owner\":\"alice\"}''],
      calls = 0\<rparr>"

text \<open>
  The composite key the in-memory host builds for type \<^verbatim>\<open>t\<close> and name \<^verbatim>\<open>n\<close>, and
  the test for the composite-key namespace: a key that starts with \<^verbatim>\<open>0x00\<close>.
\<close>

definition indexKey :: string where
  "indexKey = CHR 0x00 # ''type~name'' @ CHR 0x00 # ''t'' @ CHR 0x00 # ''n'' @ [CHR 0x00]"

definition composite :: "string \<Rightarrow> bool" where
  "composite key = (take 1 key = [CHR 0x00])"

section \<open>Properties\<close>

lemmas host_simps = memStub_def called_def createCompositeKey_def

lemmas codec_simps =
  goLib_def asciiLower_def quoted_def jsonMarshal_def jsonUnmarshal_def field_def

lemmas run_simps =
  host_simps codec_simps emptyLedger_def oneProduct_def indexKey_def composite_def

subsection \<open>The in-memory host is a key-value host; what a successful \<^verbatim>\<open>initProduct\<close> did\<close>

lemma kvHost_memStub: "kvHost (memStub refused) world"
  by (auto simp: kvHost_def host_simps)

lemma kvHost_GetState:
  assumes "kvHost stub view" and "GetState stub key s = (r, s1)"
  shows "r = Inr (view s key)" and "view s1 = view s"
proof -
  from assms(1) have "fst (GetState stub key s) = Inr (view s key)"
    and "view (snd (GetState stub key s)) = view s"
    by (simp_all add: kvHost_def)
  with assms(2) show "r = Inr (view s key)" and "view s1 = view s" by simp_all
qed

lemma kvHost_PutState_accepted:
  assumes "kvHost stub view" and "PutState stub key (Some v) s = (None, s1)"
  shows "view s1 = (view s)(key \<mapsto> v)"
proof -
  from assms(1) have "fst (PutState stub key (Some v) s) = None \<longrightarrow>
      view (snd (PutState stub key (Some v) s)) = (view s)(key \<mapsto> v)"
    unfolding kvHost_def by blast
  with assms(2) show ?thesis by simp
qed

lemma kvHost_PutState_refused:
  assumes "kvHost stub view" and "PutState stub key v s = (Some err, s1)"
  shows "view s1 = view s"
proof -
  from assms(1) have "fst (PutState stub key v s) \<noteq> None \<longrightarrow>
      view (snd (PutState stub key v s)) = view s"
    unfolding kvHost_def by blast
  with assms(2) show ?thesis by simp
qed

lemma kvHost_CreateCompositeKey:
  assumes "kvHost stub view" and "CreateCompositeKey stub objectType attributes s = (r, s1)"
  shows "view s1 = view s"
proof -
  from assms(1) have "view (snd (CreateCompositeKey stub objectType attributes s)) = view s"
    unfolding kvHost_def by blast
  with assms(2) show ?thesis by simp
qed

lemma initProduct_Success:
  assumes "fst (initProduct stub lib [uid, pname, ptype, owner] s) = Success r"
  obtains s1 js s2 ck s3 e where
    "uid \<noteq> []" and "pname \<noteq> []" and "ptype \<noteq> []" and "owner \<noteq> []" and
    "GetState stub uid s = (Inr None, s1)" and
    "Marshal lib \<lparr>ObjectType = ''product'', Puid = uid, Pname = ToLower lib pname,
                   Ptype = ToLower lib ptype, Owner = ToLower lib owner\<rparr> = Inr js" and
    "PutState stub uid (Some js) s1 = (None, s2)" and
    "CreateCompositeKey stub ''type~name'' [ToLower lib ptype, ToLower lib pname] s2
       = (Inr ck, s3)" and
    "PutState stub ck (Some [CHR 0x00]) s3
       = (e, snd (initProduct stub lib [uid, pname, ptype, owner] s))"
  using assms
  by (auto simp: initProduct_def Let_def
        split: if_splits prod.splits sum.splits option.splits)

subsection \<open>The claims\<close>


text \<open>
  C9. For every function name outside the five of the invocation surface,
  \<^verbatim>\<open>Invoke\<close> returns the failure response "Received unknown function invocation"
  and hands back the host state it was given, whatever the host and the arguments:
  no method of the host is called.
\<close>

theorem Invoke_unknown_function:
  assumes "function \<notin> {''initProduct'', ''transferProduct'', ''readProduct'',
                        ''queryProduct'', ''getHistoryForProduct''}"
  shows "Invoke stub lib (function, args) s = (Error ''Received unknown function invocation'', s)"
  using assms by (simp add: Invoke_def)


theorem Invoke_unknown_function_witness:
  "''deleteProduct'' \<notin> {''initProduct'', ''transferProduct'', ''readProduct'',
                        ''queryProduct'', ''getHistoryForProduct''} \<and>
   Invoke (memStub (\<lambda>key. False)) goLib (''deleteProduct'', [''1q2'']) emptyLedger
     = (Error ''Received unknown function invocation'', emptyLedger)"
  using Invoke_unknown_function
    [of "''deleteProduct''" "memStub (\<lambda>key. False)" goLib "[''1q2'']" emptyLedger]
  by simp

text \<open>
  C5, as the code has it. \<^verbatim>\<open>initProduct\<close> refuses every argument list whose length
  is not 4 and \<^verbatim>\<open>readProduct\<close> every one whose length is not 1; \<^verbatim>\<open>transferProduct\<close>
  refuses fewer than 2 arguments, \<^verbatim>\<open>queryProduct\<close> and \<^verbatim>\<open>getHistoryForProduct\<close>
  fewer than 1. Each refusal reports an incorrect number of arguments and hands
  back the host state it was given: no method of the host is called. Extra
  arguments of the last three operations are not refused.
\<close>

theorem wrong_argument_count:
  "(length args \<noteq> 4 \<longrightarrow>
      initProduct stub lib args s = (Error ''Incorrect number of arguments. Expecting 4'', s)) \<and>
   (length args \<noteq> 1 \<longrightarrow>
      readProduct stub lib args s =
        (Error ''Incorrect number of arguments. Expecting product ID of the product to query'', s)) \<and>
   (length args < 2 \<longrightarrow>
      transferProduct stub lib args s = (Error ''Incorrect number of arguments. Expecting 2'', s)) \<and>
   (length args < 1 \<longrightarrow>
      queryProduct stub lib args s = (Error ''Incorrect number of arguments. Expecting 1'', s)) \<and>
   (length args < 1 \<longrightarrow>
      getHistoryForProduct stub lib args s
        = (Error ''Incorrect number of arguments. Expecting 1'', s))"
  by (simp add: initProduct_def readProduct_def transferProduct_def queryProduct_def
        getHistoryForProduct_def)

theorem wrong_argument_count_witness:
  "initProduct (memStub (\<lambda>key. False)) goLib [] oneProduct
     = (Error ''Incorrect number of arguments. Expecting 4'', oneProduct) \<and>
   readProduct (memStub (\<lambda>key. False)) goLib [] oneProduct
     = (Error ''Incorrect number of arguments. Expecting product ID of the product to query'',
        oneProduct) \<and>
   transferProduct (memStub (\<lambda>key. False)) goLib [] oneProduct
     = (Error ''Incorrect number of arguments. Expecting 2'', oneProduct) \<and>
   queryProduct (memStub (\<lambda>key. False)) goLib [] oneProduct
     = (Error ''Incorrect number of arguments. Expecting 1'', oneProduct) \<and>
   getHistoryForProduct (memStub (\<lambda>key. False)) goLib [] oneProduct
     = (Error ''Incorrect number of arguments. Expecting 1'', oneProduct)"
  using wrong_argument_count [of "[]" "memStub (\<lambda>key. False)" goLib oneProduct]
  by simp

text \<open>
  C5 as stated fails: \<^verbatim>\<open>transferProduct\<close> with three arguments, one more than its
  arity, succeeds on a stored product and rewrites it.
\<close>

theorem three_arguments_transfer:
  "length [''1q2'', ''Bob'', ''extra''] \<noteq> 2 \<and>
   fst (transferProduct (memStub (\<lambda>key. False)) goLib [''1q2'', ''Bob'', ''extra''] oneProduct)
     = Success None \<and>
   world (snd (transferProduct (memStub (\<lambda>key. False)) goLib [''1q2'', ''Bob'', ''extra'']
                 oneProduct)) ''1q2''
     = Some ''{\"docType\":\"product\",\"puid\":\"1q2\",\"pname\":\"n\",\"ptype\":\"t\",\"owner\":\"bob\"}''"
  by (simp add: transferProduct_def oneProduct_def host_simps codec_simps)

text \<open>
  C6, as the code has it. Only \<^verbatim>\<open>initProduct\<close> checks its arguments for
  emptiness: called with four arguments of which one is empty, it returns the
  failure response that names the position of the first empty one, and hands
  back the host state it was given, so nothing is read or written.
\<close>

theorem initProduct_empty_argument:
  "(a0 = [] \<longrightarrow> initProduct stub lib [a0, a1, a2, a3] s
       = (Error ''1st argument must be a non-empty string'', s)) \<and>
   (a0 \<noteq> [] \<and> a1 = [] \<longrightarrow> initProduct stub lib [a0, a1, a2, a3] s
       = (Error ''2nd argument must be a non-empty string'', s)) \<and>
   (a0 \<noteq> [] \<and> a1 \<noteq> [] \<and> a2 = [] \<longrightarrow> initProduct stub lib [a0, a1, a2, a3] s
       = (Error ''3rd argument must be a non-empty string'', s)) \<and>
   (a0 \<noteq> [] \<and> a1 \<noteq> [] \<and> a2 \<noteq> [] \<and> a3 = [] \<longrightarrow> initProduct stub lib [a0, a1, a2, a3] s
       = (Error ''4th argument must be a non-empty string'', s))"
  by (simp add: initProduct_def)

theorem initProduct_empty_argument_witness:
  "initProduct (memStub (\<lambda>key. False)) goLib ['''', ''n'', ''t'', ''Alice''] emptyLedger
     = (Error ''1st argument must be a non-empty string'', emptyLedger) \<and>
   initProduct (memStub (\<lambda>key. False)) goLib [''1q2'', '''', ''t'', ''Alice''] emptyLedger
     = (Error ''2nd argument must be a non-empty string'', emptyLedger) \<and>
   initProduct (memStub (\<lambda>key. False)) goLib [''1q2'', ''n'', '''', ''Alice''] emptyLedger
     = (Error ''3rd argument must be a non-empty string'', emptyLedger) \<and>
   initProduct (memStub (\<lambda>key. False)) goLib [''1q2'', ''n'', ''t'', ''''] emptyLedger
     = (Error ''4th argument must be a non-empty string'', emptyLedger)"
  using
    initProduct_empty_argument
      [of "[]" "memStub (\<lambda>key. False)" goLib "''n''" "''t''" "''Alice''" emptyLedger]
    initProduct_empty_argument
      [of "''1q2''" "memStub (\<lambda>key. False)" goLib "[]" "''t''" "''Alice''" emptyLedger]
    initProduct_empty_argument
      [of "''1q2''" "memStub (\<lambda>key. False)" goLib "''n''" "[]" "''Alice''" emptyLedger]
    initProduct_empty_argument
      [of "''1q2''" "memStub (\<lambda>key. False)" goLib "''n''" "''t''" "[]" emptyLedger]
  by simp

text \<open>
  C6 as stated fails: \<^verbatim>\<open>transferProduct\<close> with an empty new owner succeeds on a
  stored product and stores the empty owner.
\<close>

theorem empty_owner_transfer:
  "fst (transferProduct (memStub (\<lambda>key. False)) goLib [''1q2'', ''''] oneProduct)
     = Success None \<and>
   world (snd (transferProduct (memStub (\<lambda>key. False)) goLib [''1q2'', ''''] oneProduct))
     ''1q2''
     = Some ''{\"docType\":\"product\",\"puid\":\"1q2\",\"pname\":\"n\",\"ptype\":\"t\",\"owner\":\"\"}''"
  by (simp add: transferProduct_def oneProduct_def host_simps codec_simps)

text \<open>
  C1, as the code has it. On a key-value host, after a successful
  \<^verbatim>\<open>initProduct(id, name, type, owner)\<close> whose composite index key differs from
  \<^verbatim>\<open>id\<close>, \<^verbatim>\<open>readProduct(id)\<close> succeeds and returns the JSON encoding of the record
  with docType \<^verbatim>\<open>product\<close>, puid \<^verbatim>\<open>id\<close> as supplied, and pname, ptype and owner the
  lower-cased name, type and owner. (A successful \<^verbatim>\<open>initProduct\<close> had four
  non-empty arguments, by \<open>initProduct_Success\<close>.)
\<close>

theorem readProduct_after_initProduct:
  assumes host: "kvHost stub view"
    and ok: "fst (initProduct stub lib [uid, pname, ptype, owner] s) = Success r"
    and apart: "\<forall>s0. fst (CreateCompositeKey stub ''type~name''
                          [ToLower lib ptype, ToLower lib pname] s0) \<noteq> Inr uid"
  shows "\<exists>js. Marshal lib \<lparr>ObjectType = ''product'', Puid = uid, Pname = ToLower lib pname,
                          Ptype = ToLower lib ptype, Owner = ToLower lib owner\<rparr> = Inr js \<and>
              fst (readProduct stub lib [uid]
                     (snd (initProduct stub lib [uid, pname, ptype, owner] s)))
                = Success (Some js)"
proof -
  let ?s' = "snd (initProduct stub lib [uid, pname, ptype, owner] s)"
  from ok obtain s1 js s2 ck s3 e where
    m: "Marshal lib \<lparr>ObjectType = ''product'', Puid = uid, Pname = ToLower lib pname,
                     Ptype = ToLower lib ptype, Owner = ToLower lib owner\<rparr> = Inr js" and
    p1: "PutState stub uid (Some js) s1 = (None, s2)" and
    c: "CreateCompositeKey stub ''type~name'' [ToLower lib ptype, ToLower lib pname] s2
          = (Inr ck, s3)" and
    p2: "PutState stub ck (Some [CHR 0x00]) s3 = (e, ?s')"
    by (rule initProduct_Success)
  from apart c have ne: "ck \<noteq> uid" by (metis fst_conv)
  from host p1 have "view s2 = (view s1)(uid \<mapsto> js)" by (rule kvHost_PutState_accepted)
  moreover from host c have "view s3 = view s2" by (rule kvHost_CreateCompositeKey)
  ultimately have v3: "view s3 uid = Some js" by simp
  have "view ?s' uid = Some js"
  proof (cases e)
    case None
    with p2 have "PutState stub ck (Some [CHR 0x00]) s3 = (None, ?s')" by simp
    with host have "view ?s' = (view s3)(ck \<mapsto> [CHR 0x00])"
      by (rule kvHost_PutState_accepted)
    with ne v3 show ?thesis by simp
  next
    case (Some err)
    with p2 have "PutState stub ck (Some [CHR 0x00]) s3 = (Some err, ?s')" by simp
    with host have "view ?s' = view s3" by (rule kvHost_PutState_refused)
    with v3 show ?thesis by simp
  qed
  moreover obtain g s5 where g: "GetState stub uid ?s' = (g, s5)"
    by (cases "GetState stub uid ?s'")
  ultimately have "g = Inr (Some js)" using kvHost_GetState(1) [OF host g] by simp
  with g have "fst (readProduct stub lib [uid] ?s') = Success (Some js)"
    by (simp add: readProduct_def)
  with m show ?thesis by blast
qed

theorem readProduct_after_initProduct_witness:
  "kvHost (memStub (\<lambda>key. False)) world \<and>
   fst (initProduct (memStub (\<lambda>key. False)) goLib [''1q2'', ''N'', ''T'', ''Alice''] emptyLedger)
     = Success None \<and>
   (\<forall>s0. fst (CreateCompositeKey (memStub (\<lambda>key. False)) ''type~name''
                 [ToLower goLib ''T'', ToLower goLib ''N''] s0) \<noteq> Inr ''1q2'') \<and>
   fst (readProduct (memStub (\<lambda>key. False)) goLib [''1q2'']
          (snd (initProduct (memStub (\<lambda>key. False)) goLib [''1q2'', ''N'', ''T'', ''Alice'']
                  emptyLedger)))
     = Success (Some
         ''{\"docType\":\"product\",\"puid\":\"1q2\",\"pname\":\"n\",\"ptype\":\"t\",\"owner\":\"alice\"}'')"
proof -
  have host: "kvHost (memStub (\<lambda>key. False)) world" by (rule kvHost_memStub)
  have ok: "fst (initProduct (memStub (\<lambda>key. False)) goLib [''1q2'', ''N'', ''T'', ''Alice'']
                   emptyLedger) = Success None"
    by (simp add: initProduct_def run_simps)
  have apart: "\<forall>s0. fst (CreateCompositeKey (memStub (\<lambda>key. False)) ''type~name''
                 [ToLower goLib ''T'', ToLower goLib ''N''] s0) \<noteq> Inr ''1q2''"
    by (simp add: run_simps)
  from readProduct_after_initProduct [OF host ok apart]
  have "fst (readProduct (memStub (\<lambda>key. False)) goLib [''1q2'']
          (snd (initProduct (memStub (\<lambda>key. False)) goLib [''1q2'', ''N'', ''T'', ''Alice'']
                  emptyLedger)))
     = Success (Some
         ''{\"docType\":\"product\",\"puid\":\"1q2\",\"pname\":\"n\",\"ptype\":\"t\",\"owner\":\"alice\"}'')"
    by (simp add: codec_simps)
  with host ok apart show ?thesis by blast
qed

text \<open>
  C1 as stated fails when \<^verbatim>\<open>id\<close> is itself the composite index key of the product:
  the sentinel overwrites the record, and \<^verbatim>\<open>readProduct\<close> returns the byte \<^verbatim>\<open>0x00\<close>,
  not the JSON encoding.
\<close>

theorem readProduct_after_colliding_initProduct:
  "indexKey \<noteq> [] \<and>
   fst (initProduct (memStub (\<lambda>key. False)) goLib [indexKey, ''n'', ''t'', ''Alice''] emptyLedger)
     = Success None \<and>
   fst (readProduct (memStub (\<lambda>key. False)) goLib [indexKey]
          (snd (initProduct (memStub (\<lambda>key. False)) goLib [indexKey, ''n'', ''t'', ''Alice'']
                  emptyLedger)))
     = Success (Some [CHR 0x00]) \<and>
   Marshal goLib \<lparr>ObjectType = ''product'', Puid = indexKey, Pname = ''n'', Ptype = ''t'',
                   Owner = ''alice''\<rparr> \<noteq> Inr [CHR 0x00]"
  by (simp add: initProduct_def readProduct_def run_simps)

text \<open>
  C2. On a key-value host, when a record is stored under \<^verbatim>\<open>id\<close>, \<^verbatim>\<open>initProduct\<close>
  with that \<^verbatim>\<open>id\<close> and any non-empty name, type and owner returns the failure
  response "This product already exists: id" and leaves the world state, so also
  the record under \<^verbatim>\<open>id\<close>, as it was. The key of a stored record is not empty:
  the host stores nothing under the empty key.
\<close>

theorem initProduct_existing:
  assumes "kvHost stub view" and "view s uid = Some v"
    and "uid \<noteq> []" and "pname \<noteq> []" and "ptype \<noteq> []" and "owner \<noteq> []"
  shows "fst (initProduct stub lib [uid, pname, ptype, owner] s)
           = Error (''This product already exists: '' @ uid) \<and>
         view (snd (initProduct stub lib [uid, pname, ptype, owner] s)) = view s"
proof -
  obtain r s1 where g: "GetState stub uid s = (r, s1)" by (cases "GetState stub uid s")
  from assms(1) have "fst (GetState stub uid s) = Inr (view s uid)"
    and "view (snd (GetState stub uid s)) = view s"
    by (simp_all add: kvHost_def)
  with g assms(2) have "r = Inr (Some v)" and "view s1 = view s" by simp_all
  with g assms(3-6) show ?thesis by (simp add: initProduct_def)
qed

theorem initProduct_existing_witness:
  "kvHost (memStub (\<lambda>key. False)) world \<and>
   world oneProduct ''1q2'' = Some
     ''{\"docType\":\"product\",\"puid\":\"1q2\",\"pname\":\"n\",\"ptype\":\"t\",\"owner\":\"alice\"}'' \<and>
   fst (initProduct (memStub (\<lambda>key. False)) goLib [''1q2'', ''M'', ''U'', ''Bob''] oneProduct)
     = Error ''This product already exists: 1q2'' \<and>
   world (snd (initProduct (memStub (\<lambda>key. False)) goLib [''1q2'', ''M'', ''U'', ''Bob'']
                 oneProduct)) = world oneProduct"
proof -
  have host: "kvHost (memStub (\<lambda>key. False)) world" by (rule kvHost_memStub)
  have stored: "world oneProduct ''1q2'' = Some
     ''{\"docType\":\"product\",\"puid\":\"1q2\",\"pname\":\"n\",\"ptype\":\"t\",\"owner\":\"alice\"}''"
    by (simp add: oneProduct_def)
  from initProduct_existing
    [OF host stored, where pname = "''M''" and ptype = "''U''" and owner = "''Bob''" and lib = goLib] host stored
  show ?thesis by simp
qed

text \<open>
  C3. On a key-value host, when no record is stored under \<^verbatim>\<open>id\<close>,
  \<^verbatim>\<open>transferProduct(id, newOwner)\<close> returns the failure response "Product does not
  exist" and leaves the world state as it was, for every \<^verbatim>\<open>newOwner\<close>.
\<close>

theorem transferProduct_missing:
  assumes "kvHost stub view" and "view s uid = None"
  shows "fst (transferProduct stub lib [uid, newOwner] s) = Error ''Product does not exist'' \<and>
         view (snd (transferProduct stub lib [uid, newOwner] s)) = view s"
proof -
  obtain r s1 where g: "GetState stub uid s = (r, s1)" by (cases "GetState stub uid s")
  from assms(1) have "fst (GetState stub uid s) = Inr (view s uid)"
    and "view (snd (GetState stub uid s)) = view s"
    by (simp_all add: kvHost_def)
  with g assms(2) have "r = Inr None" and "view s1 = view s" by simp_all
  with g show ?thesis by (simp add: transferProduct_def)
qed

theorem transferProduct_missing_witness:
  "kvHost (memStub (\<lambda>key. False)) world \<and>
   world oneProduct ''dd4'' = None \<and>
   fst (transferProduct (memStub (\<lambda>key. False)) goLib [''dd4'', ''Bob''] oneProduct)
     = Error ''Product does not exist'' \<and>
   world (snd (transferProduct (memStub (\<lambda>key. False)) goLib [''dd4'', ''Bob''] oneProduct))
     = world oneProduct"
proof -
  have host: "kvHost (memStub (\<lambda>key. False)) world" by (rule kvHost_memStub)
  have absent: "world oneProduct ''dd4'' = None" by (simp add: oneProduct_def)
  from transferProduct_missing [OF host absent, where lib = goLib and newOwner = "''Bob''"] host absent
  show ?thesis by simp
qed

text \<open>
  C4. On a key-value host, when the value stored under \<^verbatim>\<open>id\<close> decodes to a product
  \<open>p\<close>, a successful \<^verbatim>\<open>transferProduct(id, newOwner)\<close> leaves the world state
  changed at \<^verbatim>\<open>id\<close> only, where it now holds the JSON encoding of \<open>p\<close> with the
  owner replaced by the lower-cased \<^verbatim>\<open>newOwner\<close> and every other field as it was.
  That \<^verbatim>\<open>json.Marshal\<close> encodes the product is a hypothesis: the code discards its
  error.
\<close>

theorem transferProduct_rewrites_owner:
  assumes "kvHost stub view" and "view s uid = Some v" and "Unmarshal lib v = Inr p"
    and "Marshal lib (p\<lparr>Owner := ToLower lib newOwner\<rparr>) = Inr js"
    and "fst (transferProduct stub lib [uid, newOwner] s) = Success r"
  shows "view (snd (transferProduct stub lib [uid, newOwner] s)) = (view s)(uid \<mapsto> js)"
proof -
  obtain g s1 where g: "GetState stub uid s = (g, s1)" by (cases "GetState stub uid s")
  from assms(1) have "fst (GetState stub uid s) = Inr (view s uid)"
    and "view (snd (GetState stub uid s)) = view s"
    by (simp_all add: kvHost_def)
  with g assms(2) have g': "g = Inr (Some v)" and v1: "view s1 = view s" by simp_all
  obtain e s2 where p: "PutState stub uid (Some js) s1 = (e, s2)"
    by (cases "PutState stub uid (Some js) s1")
  from g g' assms(3,4) p have t: "transferProduct stub lib [uid, newOwner] s
      = (case e of Some err \<Rightarrow> (Error err, s2) | None \<Rightarrow> (Success None, s2))"
    by (simp add: transferProduct_def)
  with assms(5) have e: "e = None" by (cases e) simp_all
  from assms(1) have "fst (PutState stub uid (Some js) s1) = None \<longrightarrow>
        view (snd (PutState stub uid (Some js) s1)) = (view s1)(uid \<mapsto> js)"
    unfolding kvHost_def by blast
  with p e have "view s2 = (view s1)(uid \<mapsto> js)" by simp
  with t e v1 show ?thesis by simp
qed

theorem transferProduct_rewrites_owner_witness:
  "kvHost (memStub (\<lambda>key. False)) world \<and>
   Unmarshal goLib
     ''{\"docType\":\"product\",\"puid\":\"1q2\",\"pname\":\"n\",\"ptype\":\"t\",\"owner\":\"alice\"}''
     = Inr \<lparr>ObjectType = ''product'', Puid = ''1q2'', Pname = ''n'', Ptype = ''t'',
            Owner = ''alice''\<rparr> \<and>
   fst (transferProduct (memStub (\<lambda>key. False)) goLib [''1q2'', ''Bob''] oneProduct)
     = Success None \<and>
   world (snd (transferProduct (memStub (\<lambda>key. False)) goLib [''1q2'', ''Bob''] oneProduct))
     = (world oneProduct)(''1q2'' \<mapsto>
         ''{\"docType\":\"product\",\"puid\":\"1q2\",\"pname\":\"n\",\"ptype\":\"t\",\"owner\":\"bob\"}'')"
proof -
  have host: "kvHost (memStub (\<lambda>key. False)) world" by (rule kvHost_memStub)
  have stored: "world oneProduct ''1q2'' = Some
     ''{\"docType\":\"product\",\"puid\":\"1q2\",\"pname\":\"n\",\"ptype\":\"t\",\"owner\":\"alice\"}''"
    by (simp add: oneProduct_def)
  have decoded: "Unmarshal goLib
     ''{\"docType\":\"product\",\"puid\":\"1q2\",\"pname\":\"n\",\"ptype\":\"t\",\"owner\":\"alice\"}''
     = Inr \<lparr>ObjectType = ''product'', Puid = ''1q2'', Pname = ''n'', Ptype = ''t'',
            Owner = ''alice''\<rparr>"
    by (simp add: codec_simps)
  have encoded: "Marshal goLib
     (\<lparr>ObjectType = ''product'', Puid = ''1q2'', Pname = ''n'', Ptype = ''t'',
        Owner = ''alice''\<rparr>\<lparr>Owner := ToLower goLib ''Bob''\<rparr>)
     = Inr ''{\"docType\":\"product\",\"puid\":\"1q2\",\"pname\":\"n\",\"ptype\":\"t\",\"owner\":\"bob\"}''"
    by (simp add: codec_simps)
  have ok: "fst (transferProduct (memStub (\<lambda>key. False)) goLib [''1q2'', ''Bob''] oneProduct)
     = Success None"
    by (simp add: transferProduct_def run_simps)
  from transferProduct_rewrites_owner [OF host stored decoded encoded ok] host decoded ok
  show ?thesis by blast
qed

text \<open>
  C7, as the code has it. On a key-value host, a successful
  \<^verbatim>\<open>initProduct(id, name, type, owner)\<close> found no record under \<^verbatim>\<open>id\<close>, wrote the
  JSON encoding of the product under \<^verbatim>\<open>id\<close>, had the host build the composite key
  from "type~name" and the lower-cased type and name, and wrote the single byte
  \<^verbatim>\<open>0x00\<close> under it. When the host accepts that last write and the composite key
  differs from \<^verbatim>\<open>id\<close>, the world state is changed at exactly these two keys.
\<close>

theorem initProduct_writes_two_keys:
  assumes host: "kvHost stub view"
    and ok: "fst (initProduct stub lib [uid, pname, ptype, owner] s) = Success r"
  shows "\<exists>s1 js s2 ck s3 e.
            GetState stub uid s = (Inr None, s1) \<and> view s uid = None \<and>
            Marshal lib \<lparr>ObjectType = ''product'', Puid = uid, Pname = ToLower lib pname,
                          Ptype = ToLower lib ptype, Owner = ToLower lib owner\<rparr> = Inr js \<and>
            PutState stub uid (Some js) s1 = (None, s2) \<and>
            CreateCompositeKey stub ''type~name'' [ToLower lib ptype, ToLower lib pname] s2
              = (Inr ck, s3) \<and>
            PutState stub ck (Some [CHR 0x00]) s3
              = (e, snd (initProduct stub lib [uid, pname, ptype, owner] s)) \<and>
            (e = None \<and> ck \<noteq> uid \<longrightarrow>
               view (snd (initProduct stub lib [uid, pname, ptype, owner] s))
                 = (view s)(uid \<mapsto> js, ck \<mapsto> [CHR 0x00]))"
proof -
  let ?s' = "snd (initProduct stub lib [uid, pname, ptype, owner] s)"
  from ok obtain s1 js s2 ck s3 e where
    g: "GetState stub uid s = (Inr None, s1)" and
    m: "Marshal lib \<lparr>ObjectType = ''product'', Puid = uid, Pname = ToLower lib pname,
                     Ptype = ToLower lib ptype, Owner = ToLower lib owner\<rparr> = Inr js" and
    p1: "PutState stub uid (Some js) s1 = (None, s2)" and
    c: "CreateCompositeKey stub ''type~name'' [ToLower lib ptype, ToLower lib pname] s2
          = (Inr ck, s3)" and
    p2: "PutState stub ck (Some [CHR 0x00]) s3 = (e, ?s')"
    by (rule initProduct_Success)
  from kvHost_GetState(1) [OF host g] have absent: "view s uid = None" by simp
  from host g have v1: "view s1 = view s" by (rule kvHost_GetState(2))
  from host p1 have v2: "view s2 = (view s1)(uid \<mapsto> js)" by (rule kvHost_PutState_accepted)
  from host c have v3: "view s3 = view s2" by (rule kvHost_CreateCompositeKey)
  have "view ?s' = (view s)(uid \<mapsto> js, ck \<mapsto> [CHR 0x00])" if "e = None"
  proof -
    from p2 that have "PutState stub ck (Some [CHR 0x00]) s3 = (None, ?s')" by simp
    with host have "view ?s' = (view s3)(ck \<mapsto> [CHR 0x00])"
      by (rule kvHost_PutState_accepted)
    with v1 v2 v3 show ?thesis by simp
  qed
  with g absent m p1 c p2 show ?thesis by blast
qed

theorem initProduct_writes_two_keys_witness:
  "kvHost (memStub (\<lambda>key. False)) world \<and>
   fst (initProduct (memStub (\<lambda>key. False)) goLib [''1q2'', ''N'', ''T'', ''Alice''] emptyLedger)
     = Success None \<and>
   PutState (memStub (\<lambda>key. False)) indexKey (Some [CHR 0x00])
       \<lparr>world = [''1q2'' \<mapsto>
           ''{\"docType\":\"product\",\"puid\":\"1q2\",\"pname\":\"n\",\"ptype\":\"t\",\"owner\":\"alice\"}''],
         calls = 3\<rparr>
     = (None, snd (initProduct (memStub (\<lambda>key. False)) goLib [''1q2'', ''N'', ''T'', ''Alice'']
                 emptyLedger)) \<and>
   indexKey \<noteq> ''1q2'' \<and>
   world (snd (initProduct (memStub (\<lambda>key. False)) goLib [''1q2'', ''N'', ''T'', ''Alice'']
                 emptyLedger))
     = (world emptyLedger)
         (''1q2'' \<mapsto>
            ''{\"docType\":\"product\",\"puid\":\"1q2\",\"pname\":\"n\",\"ptype\":\"t\",\"owner\":\"alice\"}'',
          indexKey \<mapsto> [CHR 0x00])"
proof -
  have host: "kvHost (memStub (\<lambda>key. False)) world" by (rule kvHost_memStub)
  have ok: "fst (initProduct (memStub (\<lambda>key. False)) goLib [''1q2'', ''N'', ''T'', ''Alice'']
                   emptyLedger) = Success None"
    by (simp add: initProduct_def run_simps)
  have ne: "indexKey \<noteq> ''1q2''" by (simp add: indexKey_def)
  from initProduct_writes_two_keys [OF host ok]
  obtain s1 js s2 ck s3 e where
    g: "GetState (memStub (\<lambda>key. False)) ''1q2'' emptyLedger = (Inr None, s1)" and
    m: "Marshal goLib \<lparr>ObjectType = ''product'', Puid = ''1q2'', Pname = ToLower goLib ''N'',
                     Ptype = ToLower goLib ''T'', Owner = ToLower goLib ''Alice''\<rparr> = Inr js" and
    p1: "PutState (memStub (\<lambda>key. False)) ''1q2'' (Some js) s1 = (None, s2)" and
    c: "CreateCompositeKey (memStub (\<lambda>key. False)) ''type~name''
          [ToLower goLib ''T'', ToLower goLib ''N''] s2 = (Inr ck, s3)" and
    p2: "PutState (memStub (\<lambda>key. False)) ck (Some [CHR 0x00]) s3
          = (e, snd (initProduct (memStub (\<lambda>key. False)) goLib
                       [''1q2'', ''N'', ''T'', ''Alice''] emptyLedger))" and
    two: "e = None \<and> ck \<noteq> ''1q2'' \<longrightarrow>
          world (snd (initProduct (memStub (\<lambda>key. False)) goLib
                       [''1q2'', ''N'', ''T'', ''Alice''] emptyLedger))
            = (world emptyLedger)(''1q2'' \<mapsto> js, ck \<mapsto> [CHR 0x00])"
    by blast
  from m have js: "js = ''{\"docType\":\"product\",\"puid\":\"1q2\",\"pname\":\"n\",\"ptype\":\"t\",\"owner\":\"alice\"}''"
    by (simp add: codec_simps)
  from g have s1: "s1 = \<lparr>world = Map.empty, calls = 1\<rparr>" by (auto simp: run_simps)
  from p1 s1 js have s2: "s2 = \<lparr>world = [''1q2'' \<mapsto> js], calls = 2\<rparr>"
    by (auto simp: run_simps)
  from c s2 have ck: "ck = indexKey" and s3: "s3 = \<lparr>world = [''1q2'' \<mapsto> js], calls = 3\<rparr>"
    by (auto simp: run_simps)
  from p2 ck s3 have e: "e = None" by (auto simp: run_simps)
  from two e ck ne js p2 s3 host ok show ?thesis by simp
qed

text \<open>
  C7 as stated fails when \<^verbatim>\<open>id\<close> is itself the composite index key of the product:
  one key is written, and it holds the sentinel, not the record.
\<close>

theorem colliding_initProduct_writes_one_key:
  "indexKey \<noteq> [] \<and> world emptyLedger indexKey = None \<and>
   fst (initProduct (memStub (\<lambda>key. False)) goLib [indexKey, ''n'', ''t'', ''Alice''] emptyLedger)
     = Success None \<and>
   world (snd (initProduct (memStub (\<lambda>key. False)) goLib [indexKey, ''n'', ''t'', ''Alice'']
                 emptyLedger))
     = (world emptyLedger)(indexKey \<mapsto> [CHR 0x00])"
  by (simp add: initProduct_def run_simps)

text \<open>
  C10. When the host refuses the write of the composite index key, \<^verbatim>\<open>initProduct\<close>
  still returns the success response: the result of the second \<^verbatim>\<open>PutState\<close> is
  discarded.
\<close>

theorem initProduct_ignores_index_write_error:
  assumes "uid \<noteq> []" and "pname \<noteq> []" and "ptype \<noteq> []" and "owner \<noteq> []"
    and "GetState stub uid s = (Inr None, s1)"
    and "Marshal lib \<lparr>ObjectType = ''product'', Puid = uid, Pname = ToLower lib pname,
                      Ptype = ToLower lib ptype, Owner = ToLower lib owner\<rparr> = Inr js"
    and "PutState stub uid (Some js) s1 = (None, s2)"
    and "CreateCompositeKey stub ''type~name'' [ToLower lib ptype, ToLower lib pname] s2
           = (Inr ck, s3)"
    and "PutState stub ck (Some [CHR 0x00]) s3 = (Some err, s4)"
  shows "initProduct stub lib [uid, pname, ptype, owner] s = (Success None, s4)"
  using assms by (simp add: initProduct_def)

theorem initProduct_ignores_index_write_error_witness:
  "initProduct (memStub composite) goLib [''1q2'', ''N'', ''T'', ''Alice''] emptyLedger
     = (Success None,
        \<lparr>world = [''1q2'' \<mapsto>
           ''{\"docType\":\"product\",\"puid\":\"1q2\",\"pname\":\"n\",\"ptype\":\"t\",\"owner\":\"alice\"}''],
         calls = 4\<rparr>) \<and>
   PutState (memStub composite) indexKey (Some [CHR 0x00])
       \<lparr>world = [''1q2'' \<mapsto>
           ''{\"docType\":\"product\",\"puid\":\"1q2\",\"pname\":\"n\",\"ptype\":\"t\",\"owner\":\"alice\"}''],
         calls = 3\<rparr>
     = (Some ''PutState failed'',
        \<lparr>world = [''1q2'' \<mapsto>
           ''{\"docType\":\"product\",\"puid\":\"1q2\",\"pname\":\"n\",\"ptype\":\"t\",\"owner\":\"alice\"}''],
         calls = 4\<rparr>) \<and>
   [''1q2'' \<mapsto>
      ''{\"docType\":\"product\",\"puid\":\"1q2\",\"pname\":\"n\",\"ptype\":\"t\",\"owner\":\"alice\"}'']
     indexKey = None"
proof -
  let ?js = "''{\"docType\":\"product\",\"puid\":\"1q2\",\"pname\":\"n\",\"ptype\":\"t\",\"owner\":\"alice\"}''"
  let ?s = "\<lambda>n. \<lparr>world = [''1q2'' \<mapsto> ?js], calls = n\<rparr>"
  have g: "GetState (memStub composite) ''1q2'' emptyLedger
             = (Inr None, \<lparr>world = Map.empty, calls = 1\<rparr>)"
    by (simp add: run_simps)
  have m: "Marshal goLib \<lparr>ObjectType = ''product'', Puid = ''1q2'', Pname = ToLower goLib ''N'',
               Ptype = ToLower goLib ''T'', Owner = ToLower goLib ''Alice''\<rparr> = Inr ?js"
    by (simp add: codec_simps)
  have p1: "PutState (memStub composite) ''1q2'' (Some ?js) \<lparr>world = Map.empty, calls = 1\<rparr>
              = (None, ?s 2)"
    by (simp add: run_simps)
  have c: "CreateCompositeKey (memStub composite) ''type~name''
             [ToLower goLib ''T'', ToLower goLib ''N''] (?s 2) = (Inr indexKey, ?s 3)"
    by (simp add: run_simps)
  have p2: "PutState (memStub composite) indexKey (Some [CHR 0x00]) (?s 3)
              = (Some ''PutState failed'', ?s 4)"
    by (simp add: run_simps)
  have "initProduct (memStub composite) goLib [''1q2'', ''N'', ''T'', ''Alice''] emptyLedger
          = (Success None, ?s 4)"
    by (rule initProduct_ignores_index_write_error [OF _ _ _ _ g m p1 c p2]) simp_all
  moreover have "[''1q2'' \<mapsto> ?js] indexKey = None" by (simp add: indexKey_def)
  ultimately show ?thesis using p2 by blast
qed

subsection \<open>The benchmark driver\<close>

lemma run_module:
  "snd (run pid m) = m\<lparr>txIndex := increment (txIndex m)\<rparr>"
  by (simp add: run_def Let_def split: option.splits)

lemma runs_module:
  "txIndex m \<le> 2 ^ 53 \<Longrightarrow>
   runs k pid m = m\<lparr>txIndex := min (txIndex m + k) (2 ^ 53)\<rparr>"
proof (induction k arbitrary: m)
  case 0
  then show ?case by simp
next
  case (Suc k)
  have "txIndex (snd (run pid m)) \<le> 2 ^ 53"
    using Suc.prems by (simp add: run_module increment_def)
  from Suc.IH [OF this] Suc.prems show ?case
    by (simp add: run_module increment_def min_def)
qed

text \<open>
  C8, as the code has it. For every call number \<open>n\<close> from 1 to \<^verbatim>\<open>2^53\<close>, the \<open>n\<close>-th
  call of \<^verbatim>\<open>run\<close> after the module was loaded and \<^verbatim>\<open>init\<close> was called produces an
  \<^verbatim>\<open>initProduct\<close> invocation of contract \<^verbatim>\<open>supply\<close>, version \<^verbatim>\<open>v1\<close>, whose product
  identifier is \<^verbatim>\<open>ID[n mod 4]\<close>, whose owner is \<^verbatim>\<open>owners[n mod 4]\<close>, whose name is
  \<^verbatim>\<open>product_n_pid\<close> and whose type is the decimal string of \<^verbatim>\<open>((n mod 10) + 1) * 10\<close>,
  a number from 10 to 100; the arguments are passed as a function name with an
  argument list for the adapter type \<^verbatim>\<open>fabric-ccp\<close>, and as named fields otherwise.
\<close>

theorem run_nth:
  assumes "1 \<le> n" and "n \<le> 2 ^ 53"
  shows "fst (run pid (runs (n - 1) pid (init bcType c args loaded)))
           = Inr (InvokeSmartContract (Some c) ''supply'' ''v1''
               (if bcType = ''fabric-ccp''
                then Chaincode ''initProduct''
                       [ID ! (n mod 4), ''product_'' @ toString n @ ''_'' @ toString pid,
                        toString (((n mod 10) + 1) * 10), owners ! (n mod 4)]
                else Verb ''initProduct'' (''product_'' @ toString n @ ''_'' @ toString pid)
                       (ID ! (n mod 4)) (toString (((n mod 10) + 1) * 10)) (owners ! (n mod 4)))
               30) \<and>
         10 \<le> ((n mod 10) + 1) * 10 \<and> ((n mod 10) + 1) * 10 \<le> 100"
proof -
  let ?m = "init bcType c args loaded"
  have "txIndex ?m \<le> 2 ^ 53" by (simp add: init_def loaded_def)
  then have "runs (n - 1) pid ?m = ?m\<lparr>txIndex := min (txIndex ?m + (n - 1)) (2 ^ 53)\<rparr>"
    by (rule runs_module)
  moreover have "min (txIndex ?m + (n - 1)) (2 ^ 53) = n - 1"
    using assms by (simp add: init_def loaded_def)
  ultimately have r: "runs (n - 1) pid ?m = ?m\<lparr>txIndex := n - 1\<rparr>" by simp
  have i: "increment (n - Suc 0) = n" using assms by (simp add: increment_def)
  have "n mod 10 < 10" by simp
  then have "((n mod 10) + 1) * 10 \<le> 100" by simp
  moreover have "fst (run pid (init bcType c args loaded\<lparr>txIndex := n - 1\<rparr>))
           = Inr (InvokeSmartContract (Some c) ''supply'' ''v1''
               (if bcType = ''fabric-ccp''
                then Chaincode ''initProduct''
                       [ID ! (n mod 4), ''product_'' @ toString n @ ''_'' @ toString pid,
                        toString (((n mod 10) + 1) * 10), owners ! (n mod 4)]
                else Verb ''initProduct'' (''product_'' @ toString n @ ''_'' @ toString pid)
                       (ID ! (n mod 4)) (toString (((n mod 10) + 1) * 10)) (owners ! (n mod 4)))
               30)"
    by (simp add: run_def i init_def loaded_def ID_def owners_def Let_def)
  ultimately show ?thesis by (simp only: r) simp
qed

theorem run_nth_witness:
  "(1::nat) \<le> 5 \<and> (5::nat) \<le> 2 ^ 53 \<and>
   fst (run 7 (runs 4 7 (init ''fabric-ccp'' () () loaded)))
     = Inr (InvokeSmartContract (Some ()) ''supply'' ''v1''
         (Chaincode ''initProduct'' [''1w2'', ''product_5_7'', ''60'', ''Bob'']) 30)"
  using run_nth [of 5 7 "''fabric-ccp''" "()" "()"]
  by (simp add: ID_def owners_def toString.simps digit_def)

text \<open>
  C8 as stated fails beyond \<^verbatim>\<open>2^53\<close> calls: \<^verbatim>\<open>txIndex\<close> stays at \<^verbatim>\<open>2^53\<close>, so call
  number \<^verbatim>\<open>2^53 + 1\<close> uses \<^verbatim>\<open>ID[0]\<close>, \<^verbatim>\<open>owners[0]\<close> and type 30, where
  \<^verbatim>\<open>n mod 4\<close> is 1 and \<^verbatim>\<open>((n mod 10) + 1) * 10\<close> is 40.
\<close>

theorem run_after_two_to_the_53_calls:
  "fst (run 7 (runs (2 ^ 53) 7 (init ''fabric-ccp'' () () loaded)))
     = Inr (InvokeSmartContract (Some ()) ''supply'' ''v1''
         (Chaincode ''initProduct'' [''1q2'', ''product_9007199254740992_7'', ''30'', ''Alice''])
         30) \<and>
   ID ! ((2 ^ 53 + 1) mod 4) = ''1w2'' \<and> owners ! ((2 ^ 53 + 1) mod 4) = ''Bob'' \<and>
   toString ((((2 ^ 53 + 1) mod 10) + 1) * 10) = ''40''"
proof -
  let ?m = "init ''fabric-ccp'' () () loaded"
  have "txIndex ?m \<le> 2 ^ 53" by (simp add: init_def loaded_def)
  then have "runs (2 ^ 53) 7 ?m = ?m\<lparr>txIndex := min (txIndex ?m + 2 ^ 53) (2 ^ 53)\<rparr>"
    by (rule runs_module)
  then have r: "runs (2 ^ 53) 7 ?m = ?m\<lparr>txIndex := 2 ^ 53\<rparr>"
    by (simp add: init_def loaded_def)
  have step: "fst (run 7 (?m\<lparr>txIndex := 2 ^ 53\<rparr>))
     = Inr (InvokeSmartContract (Some ()) ''supply'' ''v1''
         (Chaincode ''initProduct'' [''1q2'', ''product_9007199254740992_7'', ''30'', ''Alice''])
         30)"
    by (simp add: run_def increment_def init_def loaded_def ID_def owners_def
          toString.simps digit_def Let_def)
  have rest: "ID ! ((2 ^ 53 + 1) mod 4) = ''1w2'' \<and> owners ! ((2 ^ 53 + 1) mod 4) = ''Bob'' \<and>
     toString ((((2 ^ 53 + 1) mod 10) + 1) * 10) = ''40''"
    by (simp add: ID_def owners_def toString.simps digit_def)
  from step rest show ?thesis by (simp only: r)
qed

end
